theory Spec2Isabelle
  imports Main
begin

section \<open>Values carried by the message channel\<close>

text \<open>
  Everything that crosses \<^verbatim>\<open>postMessage\<close> is structured-cloneable data. A number is
  kept as an integer, with \<open>JNaN\<close> beside it: the handlers only ever test a number for
  truthiness, and a non-integral double is truthy like any non-zero integer. \<open>JError name
  message\<close> is an \<^verbatim>\<open>Error\<close> object (\<^verbatim>\<open>new Error('...')\<close>, a \<^verbatim>\<open>TypeError\<close>, a validator's
  error).
\<close>

datatype jsval =
    JUndefined
  | JNull
  | JBool bool
  | JNum int
  | JNaN
  | JStr string
  | JArr "jsval list"
  | JObj "(string \<times> jsval) list"
  | JError string string

text \<open>JavaScript truthiness, as tested by \<^verbatim>\<open>if (error)\<close>.\<close>

fun truthy :: "jsval \<Rightarrow> bool" where
  "truthy JUndefined = False"
| "truthy JNull = False"
| "truthy (JBool b) = b"
| "truthy (JNum n) = (n \<noteq> 0)"
| "truthy JNaN = False"
| "truthy (JStr s) = (s \<noteq> [])"
| "truthy (JArr xs) = True"
| "truthy (JObj kvs) = True"
| "truthy (JError n m) = True"

text \<open>
  \<^verbatim>\<open>null\<close> and \<^verbatim>\<open>undefined\<close>: reading a property of either, or destructuring either,
  throws a \<^verbatim>\<open>TypeError\<close>.
\<close>

definition nullish :: "jsval \<Rightarrow> bool" where
  "nullish v = (v = JUndefined \<or> v = JNull)"

text \<open>
  Property read \<^verbatim>\<open>v.k\<close> on a value that is not nullish. The keys read by the code
  (\<^verbatim>\<open>type\<close>, \<^verbatim>\<open>messageId\<close>, \<^verbatim>\<open>payload\<close>, \<^verbatim>\<open>response\<close>, \<^verbatim>\<open>error\<close>, \<^verbatim>\<open>renderData\<close>) are
  properties of no primitive, array or error object, so they read as \<^verbatim>\<open>undefined\<close> there.
\<close>

fun read_prop :: "jsval \<Rightarrow> string \<Rightarrow> jsval" where
  "read_prop (JObj kvs) k = (case map_of kvs k of None \<Rightarrow> JUndefined | Some v \<Rightarrow> v)"
| "read_prop v k = JUndefined"

text \<open>The engine's \<^verbatim>\<open>TypeError\<close>; its message differs between engines and is left empty.\<close>

definition type_error :: jsval where
  "type_error = JError ''TypeError'' []"


section \<open>Schemas\<close>

text \<open>
  A schema is used only through \<^verbatim>\<open>schema.safeParse(value)\<close>, which returns either
  \<^verbatim>\<open>{ success: false, error }\<close> or \<^verbatim>\<open>{ success: true, data }\<close>. The validator library is
  not part of the repository, so a schema is the function \<^verbatim>\<open>safeParse\<close> computes.
\<close>

datatype parse_result = ParseFailure jsval | ParseSuccess jsval

type_synonym schema = "jsval \<Rightarrow> parse_result"


section \<open>The child context\<close>

text \<open>
  What \<^verbatim>\<open>window.parent\<close> is: missing (\<^verbatim>\<open>!window.parent\<close>), the window itself
  (\<^verbatim>\<open>window.parent === window\<close>, a top-level page), or a distinct host frame.
\<close>

datatype parent_ctx = NoParent | SelfParent | HostParent

datatype promise = Pending | Resolved jsval | Rejected jsval

text \<open>
  A \<^verbatim>\<open>handleMessage\<close> closure registered on \<^verbatim>\<open>window\<close>. It captures the promise it
  settles (an index into \<open>promises\<close>, which also is the closure's identity for
  \<^verbatim>\<open>removeEventListener\<close>), and the \<^verbatim>\<open>messageId\<close> and \<^verbatim>\<open>schema\<close> of its call.
\<close>

datatype listener =
    SenderListener nat string "schema option"
  | WaiterListener nat "schema option"

fun lid :: "listener \<Rightarrow> nat" where
  "lid (SenderListener p messageId schema) = p"
| "lid (WaiterListener p schema) = p"

record world =
  parent :: parent_ctx
  posted :: "jsval list"
  listeners :: "listener list"
  promises :: "promise list"
  console :: "jsval list list"
  reported :: "jsval list"

text \<open>
  \<open>posted\<close> holds the first argument of every \<^verbatim>\<open>window.parent.postMessage\<close> call, oldest
  first; \<open>listeners\<close> the \<^verbatim>\<open>message\<close> listeners of \<^verbatim>\<open>window\<close> in registration order;
  \<open>console\<close> the argument list of each \<^verbatim>\<open>console.log\<close>; \<open>reported\<close> the exceptions
  thrown by listeners and effects, which the event loop reports and does not propagate.
\<close>

definition initial_world :: "parent_ctx \<Rightarrow> world" where
  "initial_world par =
     \<lparr>parent = par, posted = [], listeners = [], promises = [], console = [], reported = []\<rparr>"

definition promise_of :: "world \<Rightarrow> nat \<Rightarrow> promise option" where
  "promise_of w p = (if p < length (promises w) then Some (promises w ! p) else None)"

text \<open>\<^verbatim>\<open>resolve\<close> and \<^verbatim>\<open>reject\<close> of a promise do nothing once it is settled.\<close>

definition settle :: "nat \<Rightarrow> promise \<Rightarrow> world \<Rightarrow> world" where
  "settle p outcome w =
     (if p < length (promises w) \<and> promises w ! p = Pending
      then w\<lparr>promises := (promises w)[p := outcome]\<rparr> else w)"

definition resolve :: "nat \<Rightarrow> jsval \<Rightarrow> world \<Rightarrow> world" where
  "resolve p v w = settle p (Resolved v) w"

definition reject :: "nat \<Rightarrow> jsval \<Rightarrow> world \<Rightarrow> world" where
  "reject p v w = settle p (Rejected v) w"

text \<open>\<^verbatim>\<open>window.parent.postMessage(msg, '*')\<close> where \<^verbatim>\<open>window.parent\<close> is an object.\<close>

definition postMessage :: "jsval \<Rightarrow> world \<Rightarrow> world" where
  "postMessage msg w = w\<lparr>posted := posted w @ [msg]\<rparr>"

definition addEventListener :: "listener \<Rightarrow> world \<Rightarrow> world" where
  "addEventListener l w = w\<lparr>listeners := listeners w @ [l]\<rparr>"

definition removeEventListener :: "nat \<Rightarrow> world \<Rightarrow> world" where
  "removeEventListener p w = w\<lparr>listeners := filter (\<lambda>l. lid l \<noteq> p) (listeners w)\<rparr>"


section \<open>Lifecycle Initializer\<close>

definition ready_signal :: jsval where
  "ready_signal = JObj [(''type'', JStr ''ui-lifecycle-iframe-ready'')]"

definition size_change :: "nat \<Rightarrow> nat \<Rightarrow> jsval" where
  "size_change height width =
     JObj [(''type'', JStr ''ui-size-change''),
           (''payload'', JObj [(''height'', JNum (int height)), (''width'', JNum (int width))])]"

text \<open>
  The effect body of \<^verbatim>\<open>useMcpUiInit(rootRef)\<close>. \<open>root\<close> is \<^verbatim>\<open>rootRef.current\<close>: \<open>None\<close>
  for \<^verbatim>\<open>null\<close>, otherwise the element's \<^verbatim>\<open>clientHeight\<close> and \<^verbatim>\<open>clientWidth\<close>. The first
  component of the result is the exception the effect throws, if any.
\<close>

definition useMcpUiInit :: "(nat \<times> nat) option \<Rightarrow> world \<Rightarrow> jsval option \<times> world" where
  "useMcpUiInit root w =
     (if parent w = NoParent then (Some type_error, w)
      else
        let w1 = postMessage ready_signal w in
        (case root of
           None \<Rightarrow> (None, w1)
         | Some (height, width) \<Rightarrow> (None, postMessage (size_change height width) w1)))"

text \<open>
  The variant without a root reference: it measures \<^verbatim>\<open>document.documentElement\<close>
  (\<^verbatim>\<open>scrollHeight\<close>, \<^verbatim>\<open>scrollWidth\<close>), which always exists.
\<close>

definition useMcpUiInit_document :: "nat \<Rightarrow> nat \<Rightarrow> world \<Rightarrow> jsval option \<times> world" where
  "useMcpUiInit_document height width w =
     (if parent w = NoParent then (Some type_error, w)
      else
        let w1 = postMessage ready_signal w in
        (None, postMessage (size_change height width) w1))"


section \<open>Sender\<close>

datatype mcp_type = Tool | Prompt | Link

fun type_name :: "mcp_type \<Rightarrow> string" where
  "type_name Tool = ''tool''"
| "type_name Prompt = ''prompt''"
| "type_name Link = ''link''"

definition envelope :: "mcp_type \<Rightarrow> string \<Rightarrow> jsval \<Rightarrow> jsval" where
  "envelope type messageId payload =
     JObj [(''type'', JStr (type_name type)), (''messageId'', JStr messageId),
           (''payload'', payload)]"

text \<open>
  \<^verbatim>\<open>handleMessage\<close> of \<^verbatim>\<open>sendMcpMessage\<close>, run on \<^verbatim>\<open>event.data = d\<close>. The first component
  of the result is the exception thrown, if any: \<^verbatim>\<open>event.data.type\<close> throws on nullish
  data, and destructuring \<^verbatim>\<open>event.data.payload\<close> throws on a nullish payload.
\<close>

definition sender_handleMessage ::
  "nat \<Rightarrow> string \<Rightarrow> schema option \<Rightarrow> jsval \<Rightarrow> world \<Rightarrow> jsval option \<times> world" where
  "sender_handleMessage p messageId schema d w =
     (if nullish d then (Some type_error, w)
      else if read_prop d ''type'' \<noteq> JStr ''ui-message-response'' then (None, w)
      else if read_prop d ''messageId'' \<noteq> JStr messageId then (None, w)
      else
        let w1 = removeEventListener p w;
            payload = read_prop d ''payload''
        in
          if nullish payload then (Some type_error, w1)
          else
            let response = read_prop payload ''response'';
                error = read_prop payload ''error''
            in
              if truthy error then (None, reject p error w1)
              else
                (case schema of
                   None \<Rightarrow> (None, resolve p response w1)
                 | Some safeParse \<Rightarrow>
                     (case safeParse response of
                        ParseFailure e \<Rightarrow> (None, reject p e w1)
                      | ParseSuccess v \<Rightarrow> (None, resolve p v w1))))"

definition no_parent_error :: jsval where
  "no_parent_error = JError ''Error'' ''No parent frame available''"

text \<open>
  \<^verbatim>\<open>sendMcpMessage(type, payload, { schema })\<close>. \<open>messageId\<close> is what
  \<^verbatim>\<open>crypto.randomUUID()\<close> returned for this call. The result is the new promise and the
  world after the executor has run.
\<close>

definition sendMcpMessage ::
  "string \<Rightarrow> mcp_type \<Rightarrow> jsval \<Rightarrow> schema option \<Rightarrow> world \<Rightarrow> nat \<times> world" where
  "sendMcpMessage messageId type payload schema w =
     (let p = length (promises w);
          w0 = w\<lparr>promises := promises w @ [Pending]\<rparr>
      in
        if parent w0 = NoParent \<or> parent w0 = SelfParent then
          (p, reject p no_parent_error
                (w0\<lparr>console := console w0 @
                   [[JStr ''[MCP] No parent frame available. Would have sent message:'',
                     envelope type messageId payload]]\<rparr>))
        else
          (p, addEventListener (SenderListener p messageId schema)
                (postMessage (envelope type messageId payload) w0)))"


section \<open>Render-Data Waiter\<close>

text \<open>
  \<^verbatim>\<open>handleMessage\<close> of \<^verbatim>\<open>waitForRenderData\<close>. It reads \<^verbatim>\<open>event.data?.type\<close>, so nullish
  data does not throw; a nullish payload does.
\<close>

definition waiter_handleMessage ::
  "nat \<Rightarrow> schema option \<Rightarrow> jsval \<Rightarrow> world \<Rightarrow> jsval option \<times> world" where
  "waiter_handleMessage p schema d w =
     (if (if nullish d then JUndefined else read_prop d ''type'')
           \<noteq> JStr ''ui-lifecycle-iframe-render-data'' then (None, w)
      else
        let w1 = removeEventListener p w;
            payload = read_prop d ''payload''
        in
          if nullish payload then (Some type_error, w1)
          else
            let renderData = read_prop payload ''renderData'';
                error = read_prop payload ''error''
            in
              if truthy error then (None, reject p error w1)
              else
                (case schema of
                   None \<Rightarrow> (None, resolve p renderData w1)
                 | Some safeParse \<Rightarrow>
                     (case safeParse renderData of
                        ParseFailure e \<Rightarrow> (None, reject p e w1)
                      | ParseSuccess v \<Rightarrow> (None, resolve p v w1))))"

text \<open>
  \<^verbatim>\<open>waitForRenderData(schema)\<close>. There is no check of \<^verbatim>\<open>window.parent\<close>: where it is
  missing, \<^verbatim>\<open>window.parent.postMessage\<close> throws inside the promise executor, which
  rejects the promise with the exception and leaves the rest of the executor unrun.
\<close>

definition waitForRenderData :: "schema option \<Rightarrow> world \<Rightarrow> nat \<times> world" where
  "waitForRenderData schema w =
     (let p = length (promises w);
          w0 = w\<lparr>promises := promises w @ [Pending]\<rparr>
      in
        if parent w0 = NoParent then (p, reject p type_error w0)
        else
          (p, addEventListener (WaiterListener p schema) (postMessage ready_signal w0)))"


section \<open>Event dispatch and runs\<close>

fun run_listener :: "listener \<Rightarrow> jsval \<Rightarrow> world \<Rightarrow> jsval option \<times> world" where
  "run_listener (SenderListener p messageId schema) d w =
     sender_handleMessage p messageId schema d w"
| "run_listener (WaiterListener p schema) d w = waiter_handleMessage p schema d w"

text \<open>
  A \<^verbatim>\<open>message\<close> event with data \<open>d\<close> goes to every listener registered when the
  dispatch starts, in registration order, skipping one that has been removed meanwhile.
  An exception thrown by a listener is reported and the dispatch goes on.
\<close>

fun dispatch_to :: "listener list \<Rightarrow> jsval \<Rightarrow> world \<Rightarrow> world" where
  "dispatch_to [] d w = w"
| "dispatch_to (l # ls) d w =
     (if lid l \<in> set (map lid (listeners w)) then
        (case run_listener l d w of
           (None, w') \<Rightarrow> dispatch_to ls d w'
         | (Some e, w') \<Rightarrow> dispatch_to ls d (w'\<lparr>reported := reported w' @ [e]\<rparr>))
      else dispatch_to ls d w)"

definition dispatch :: "jsval \<Rightarrow> world \<Rightarrow> world" where
  "dispatch d w = dispatch_to (listeners w) d w"

text \<open>What can happen in the child context, one event-loop task at a time.\<close>

datatype action =
    Send string mcp_type jsval "schema option"
  | Wait "schema option"
  | Init "(nat \<times> nat) option"
  | InitDocument nat nat
  | Deliver jsval

fun step :: "action \<Rightarrow> world \<Rightarrow> world" where
  "step (Send messageId type payload schema) w =
     snd (sendMcpMessage messageId type payload schema w)"
| "step (Wait schema) w = snd (waitForRenderData schema w)"
| "step (Init root) w =
     (case useMcpUiInit root w of
        (None, w') \<Rightarrow> w'
      | (Some e, w') \<Rightarrow> w'\<lparr>reported := reported w' @ [e]\<rparr>)"
| "step (InitDocument height width) w =
     (case useMcpUiInit_document height width w of
        (None, w') \<Rightarrow> w'
      | (Some e, w') \<Rightarrow> w'\<lparr>reported := reported w' @ [e]\<rparr>)"
| "step (Deliver d) w = dispatch d w"

definition run :: "action list \<Rightarrow> world \<Rightarrow> world" where
  "run acts w = fold step acts w"

text \<open>The two inbound filters, as the handlers test them.\<close>

definition sender_matches :: "string \<Rightarrow> jsval \<Rightarrow> bool" where
  "sender_matches messageId d =
     (read_prop d ''type'' = JStr ''ui-message-response'' \<and> read_prop d ''messageId'' = JStr messageId)"

definition waiter_matches :: "jsval \<Rightarrow> bool" where
  "waiter_matches d = (read_prop d ''type'' = JStr ''ui-lifecycle-iframe-render-data'')"


section \<open>A sample schema\<close>

text \<open>
  Used in the concrete runs below: a number is accepted as it is, a missing value parses
  to the default \<open>0\<close>, anything else fails (as \<^verbatim>\<open>z.number().default(0)\<close> would).
\<close>

definition number_schema :: schema where
  "number_schema v =
     (case v of
        JNum n \<Rightarrow> ParseSuccess (JNum n)
      | JUndefined \<Rightarrow> ParseSuccess (JNum 0)
      | _ \<Rightarrow> ParseFailure (JError ''ZodError'' ''Expected number''))"


section \<open>The state of one call\<close>

text \<open>
  The listeners of the call that owns promise \<open>p\<close>, and the invariant of the worlds that
  runs reach: listeners belong to distinct calls, and an installed listener's promise is
  pending.
\<close>

definition local_listeners :: "world \<Rightarrow> nat \<Rightarrow> listener list" where
  "local_listeners w p = filter (\<lambda>l. lid l = p) (listeners w)"

definition consistent :: "world \<Rightarrow> bool" where
  "consistent w =
     (distinct (map lid (listeners w)) \<and>
      (\<forall>l \<in> set (listeners w). promise_of w (lid l) = Some Pending))"


section \<open>Frame and invariant lemmas\<close>

lemma promise_of_settle_same:
  "promise_of (settle p out w) p =
     (if promise_of w p = Some Pending then Some out else promise_of w p)"
  by (simp add: promise_of_def settle_def)

lemma promise_of_settle_other:
  "q \<noteq> p \<Longrightarrow> promise_of (settle q out w) p = promise_of w p"
  by (simp add: promise_of_def settle_def)

lemma settle_fields:
  "listeners (settle p out w) = listeners w"
  "posted (settle p out w) = posted w"
  "parent (settle p out w) = parent w"
  "length (promises (settle p out w)) = length (promises w)"
  by (simp_all add: settle_def)

lemma promise_of_remove:
  "promise_of (removeEventListener q w) p = promise_of w p"
  by (simp add: promise_of_def removeEventListener_def)

lemma remove_fields:
  "listeners (removeEventListener q w) = filter (\<lambda>l. lid l \<noteq> q) (listeners w)"
  "posted (removeEventListener q w) = posted w"
  "parent (removeEventListener q w) = parent w"
  "length (promises (removeEventListener q w)) = length (promises w)"
  by (simp_all add: removeEventListener_def)

text \<open>What a handler does to its own promise and to the listener list.\<close>

lemma run_listener_effect:
  "\<exists>out. snd (run_listener l d w) = w \<or>
         snd (run_listener l d w) = removeEventListener (lid l) w \<or>
         snd (run_listener l d w) = settle (lid l) out (removeEventListener (lid l) w)"
  by (cases l)
    (auto simp: sender_handleMessage_def waiter_handleMessage_def Let_def resolve_def reject_def
      split: option.splits parse_result.splits)

lemma run_listener_length:
  "length (promises (snd (run_listener l d w))) = length (promises w)"
  using run_listener_effect [of l d w] by (auto simp: settle_fields remove_fields)

lemma run_listener_other:
  assumes "lid l \<noteq> p"
  shows "promise_of (snd (run_listener l d w)) p = promise_of w p"
    and "local_listeners (snd (run_listener l d w)) p = local_listeners w p"
proof -
  obtain out where
    "snd (run_listener l d w) = w \<or>
     snd (run_listener l d w) = removeEventListener (lid l) w \<or>
     snd (run_listener l d w) = settle (lid l) out (removeEventListener (lid l) w)"
    using run_listener_effect by blast
  moreover have "filter (\<lambda>x. lid x = p) (filter (\<lambda>x. lid x \<noteq> lid l) (listeners w))
      = filter (\<lambda>x. lid x = p) (listeners w)"
    using assms by (auto intro: filter_cong)
  ultimately show "promise_of (snd (run_listener l d w)) p = promise_of w p"
    and "local_listeners (snd (run_listener l d w)) p = local_listeners w p"
    using assms
    by (auto simp: promise_of_settle_other promise_of_remove settle_fields remove_fields
        local_listeners_def)
qed

lemma reported_fields:
  "promise_of (w\<lparr>reported := r\<rparr>) p = promise_of w p"
  "local_listeners (w\<lparr>reported := r\<rparr>) p = local_listeners w p"
  "consistent (w\<lparr>reported := r\<rparr>) = consistent w"
  by (simp_all add: promise_of_def local_listeners_def consistent_def)

lemma installed_iff:
  "lid l \<in> set (map lid (listeners w)) \<longleftrightarrow> local_listeners w (lid l) \<noteq> []"
  by (simp add: local_listeners_def filter_empty_conv image_iff) metis

lemma run_listener_local:
  assumes "promise_of w' (lid l) = promise_of w (lid l)"
    and "local_listeners w' (lid l) = local_listeners w (lid l)"
  shows "promise_of (snd (run_listener l d w')) (lid l)
           = promise_of (snd (run_listener l d w)) (lid l)"
    and "local_listeners (snd (run_listener l d w')) (lid l)
           = local_listeners (snd (run_listener l d w)) (lid l)"
  using assms
  by (cases l;
      simp add: sender_handleMessage_def waiter_handleMessage_def Let_def resolve_def
        reject_def promise_of_settle_same promise_of_remove settle_fields remove_fields
        local_listeners_def
      split: option.splits parse_result.splits)+

lemma dispatch_to_other:
  "\<forall>x \<in> set ls. lid x \<noteq> p \<Longrightarrow>
     promise_of (dispatch_to ls d w) p = promise_of w p \<and>
     local_listeners (dispatch_to ls d w) p = local_listeners w p"
proof (induction ls arbitrary: w)
  case Nil
  show ?case by simp
next
  case (Cons x xs)
  then have x: "lid x \<noteq> p" and xs: "\<forall>y \<in> set xs. lid y \<noteq> p" by simp_all
  obtain r w1 where rl: "run_listener x d w = (r, w1)" by (cases "run_listener x d w")
  then have w1: "w1 = snd (run_listener x d w)" by simp
  have keep: "promise_of w1 p = promise_of w p" "local_listeners w1 p = local_listeners w p"
    using run_listener_other [OF x, of d w] by (simp_all add: w1)
  show ?case
    using Cons.IH [OF xs, of w] Cons.IH [OF xs, of w1]
      Cons.IH [OF xs, of "w1\<lparr>reported := reported w1 @ [the r]\<rparr>"] keep rl
    by (cases r) (simp_all add: reported_fields)
qed

lemma dispatch_to_own:
  assumes "distinct (map lid ls)" and "l \<in> set ls" and "local_listeners w (lid l) \<noteq> []"
  shows "promise_of (dispatch_to ls d w) (lid l) = promise_of (snd (run_listener l d w)) (lid l) \<and>
         local_listeners (dispatch_to ls d w) (lid l)
           = local_listeners (snd (run_listener l d w)) (lid l)"
  using assms
proof (induction ls arbitrary: w)
  case Nil
  then show ?case by simp
next
  case (Cons x xs)
  obtain r w1 where rl: "run_listener x d w = (r, w1)" by (cases "run_listener x d w")
  then have w1: "w1 = snd (run_listener x d w)" by simp
  show ?case
  proof (cases "lid x = lid l")
    case True
    with Cons.prems have xl: "x = l" by (auto simp: image_iff)
    from Cons.prems xl have rest: "\<forall>y \<in> set xs. lid y \<noteq> lid l" by (auto simp: image_iff)
    have inst: "lid l \<in> set (map lid (listeners w))"
      using Cons.prems(3) installed_iff by blast
    show ?thesis
      using dispatch_to_other [OF rest, of d w1]
        dispatch_to_other [OF rest, of d "w1\<lparr>reported := reported w1 @ [the r]\<rparr>"]
        rl inst xl
      by (cases r) (simp_all add: reported_fields)
  next
    case False
    with Cons.prems have l: "l \<in> set xs" and d: "distinct (map lid xs)" by auto
    have keep: "promise_of w1 (lid l) = promise_of w (lid l)"
      "local_listeners w1 (lid l) = local_listeners w (lid l)"
      using run_listener_other [OF False, of d w] by (simp_all add: w1)
    have inst1: "local_listeners w1 (lid l) \<noteq> []" using keep Cons.prems(3) by simp
    have same: "promise_of (snd (run_listener l d w1)) (lid l)
                  = promise_of (snd (run_listener l d w)) (lid l)"
      "local_listeners (snd (run_listener l d w1)) (lid l)
                  = local_listeners (snd (run_listener l d w)) (lid l)"
      using run_listener_local [OF keep] by simp_all
    let ?w2 = "w1\<lparr>reported := reported w1 @ [the r]\<rparr>"
    have keep2: "promise_of ?w2 (lid l) = promise_of w (lid l)"
      "local_listeners ?w2 (lid l) = local_listeners w (lid l)"
      using keep by (simp_all add: reported_fields)
    have inst2: "local_listeners ?w2 (lid l) \<noteq> []" using keep2 Cons.prems(3) by simp
    have same2: "promise_of (snd (run_listener l d ?w2)) (lid l)
                  = promise_of (snd (run_listener l d w)) (lid l)"
      "local_listeners (snd (run_listener l d ?w2)) (lid l)
                  = local_listeners (snd (run_listener l d w)) (lid l)"
      using run_listener_local [OF keep2] by simp_all
    show ?thesis
      using Cons.IH [OF d l Cons.prems(3), of ] Cons.IH [OF d l inst1] Cons.IH [OF d l inst2]
        same same2 rl
      by (cases r) simp_all
  qed
qed

lemma consistent_run_listener:
  assumes "consistent w"
  shows "consistent (snd (run_listener l d w))"
proof -
  obtain out where
    "snd (run_listener l d w) = w \<or>
     snd (run_listener l d w) = removeEventListener (lid l) w \<or>
     snd (run_listener l d w) = settle (lid l) out (removeEventListener (lid l) w)"
    using run_listener_effect by blast
  moreover have "consistent (removeEventListener (lid l) w)"
    using assms
    by (simp add: consistent_def remove_fields promise_of_remove distinct_map_filter)
  moreover have "consistent (settle (lid l) out (removeEventListener (lid l) w))"
    using assms
    by (simp add: consistent_def remove_fields settle_fields promise_of_remove
        promise_of_settle_other distinct_map_filter)
  ultimately show ?thesis using assms by auto
qed

lemma consistent_dispatch_to:
  "consistent w \<Longrightarrow> consistent (dispatch_to ls d w)"
proof (induction ls arbitrary: w)
  case Nil
  then show ?case by simp
next
  case (Cons x xs)
  obtain r w1 where rl: "run_listener x d w = (r, w1)" by (cases "run_listener x d w")
  have "consistent w1"
    using consistent_run_listener [OF Cons.prems, of x d] rl by simp
  then have "consistent (dispatch_to xs d w1)"
    and "consistent (dispatch_to xs d (w1\<lparr>reported := reported w1 @ [the r]\<rparr>))"
    using Cons.IH by (simp_all add: reported_fields)
  then show ?case
    using rl Cons.IH [OF Cons.prems] by (cases r) simp_all
qed

lemma promise_of_lt: "promise_of w p = Some x \<Longrightarrow> p < length (promises w)"
  by (simp add: promise_of_def split: if_splits)

lemma consistent_cong:
  "listeners w' = listeners w \<Longrightarrow> promises w' = promises w \<Longrightarrow> consistent w' = consistent w"
  by (simp add: consistent_def promise_of_def)

lemma init_fields:
  "listeners (step (Init root) w) = listeners w"
  "promises (step (Init root) w) = promises w"
  by (simp_all add: useMcpUiInit_def Let_def postMessage_def split: option.splits)

lemma init_document_fields:
  "listeners (step (InitDocument height width) w) = listeners w"
  "promises (step (InitDocument height width) w) = promises w"
  by (simp_all add: useMcpUiInit_document_def Let_def postMessage_def)

lemma consistent_step:
  assumes "consistent w"
  shows "consistent (step a w)"
proof (cases a)
  case (Send messageId type payload schema)
  have "\<forall>l \<in> set (listeners w). lid l < length (promises w)"
    using assms by (auto simp: consistent_def dest: promise_of_lt)
  then show ?thesis
    using assms Send
    by (auto simp: consistent_def sendMcpMessage_def Let_def reject_def settle_def
        promise_of_def postMessage_def addEventListener_def nth_append)
next
  case (Wait schema)
  have "\<forall>l \<in> set (listeners w). lid l < length (promises w)"
    using assms by (auto simp: consistent_def dest: promise_of_lt)
  then show ?thesis
    using assms Wait
    by (auto simp: consistent_def waitForRenderData_def Let_def reject_def settle_def
        promise_of_def postMessage_def addEventListener_def nth_append)
next
  case (Init root)
  then show ?thesis
    using assms consistent_cong [of "step a w" w] init_fields [of root w] by simp
next
  case (InitDocument height width)
  then show ?thesis
    using assms consistent_cong [of "step a w" w] init_document_fields [of height width w] by simp
next
  case (Deliver d)
  then show ?thesis
    using assms by (simp add: dispatch_def consistent_dispatch_to)
qed

lemma consistent_fold: "consistent w \<Longrightarrow> consistent (fold step acts w)"
  by (induction acts arbitrary: w) (simp_all add: consistent_step)

lemma consistent_run: "consistent (run acts (initial_world par))"
  unfolding run_def
  by (rule consistent_fold) (simp add: consistent_def initial_world_def)

text \<open>Consequences of consistency for an installed listener.\<close>

lemma consistent_installed:
  assumes "consistent w" and "l \<in> set (listeners w)"
  shows "promise_of w (lid l) = Some Pending"
    and "local_listeners w (lid l) = [l]"
    and "distinct (map lid (listeners w))"
proof -
  show "promise_of w (lid l) = Some Pending" and d: "distinct (map lid (listeners w))"
    using assms by (simp_all add: consistent_def)
  have "\<And>xs. distinct (map lid xs) \<Longrightarrow> l \<in> set xs \<Longrightarrow> filter (\<lambda>x. lid x = lid l) xs = [l]"
  proof -
    fix xs show "distinct (map lid xs) \<Longrightarrow> l \<in> set xs \<Longrightarrow> filter (\<lambda>x. lid x = lid l) xs = [l]"
      by (induction xs) (auto simp: image_iff filter_empty_conv)
  qed
  then show "local_listeners w (lid l) = [l]"
    using d assms(2) by (simp add: local_listeners_def)
qed

lemma dispatch_own:
  assumes "consistent w" and "l \<in> set (listeners w)"
  shows "promise_of (dispatch d w) (lid l) = promise_of (snd (run_listener l d w)) (lid l)"
    and "local_listeners (dispatch d w) (lid l)
           = local_listeners (snd (run_listener l d w)) (lid l)"
  using dispatch_to_own [of "listeners w" l w d] consistent_installed [OF assms]
  by (simp_all add: dispatch_def assms)

lemma local_listeners_empty:
  "local_listeners w p = [] \<longleftrightarrow> (\<forall>l \<in> set (listeners w). lid l \<noteq> p)"
  by (simp add: local_listeners_def filter_empty_conv)

lemma local_listeners_mem:
  "local_listeners w (lid l) = [l] \<Longrightarrow> l \<in> set (listeners w)"
proof -
  assume "local_listeners w (lid l) = [l]"
  then have "l \<in> set (filter (\<lambda>x. lid x = lid l) (listeners w))"
    by (simp add: local_listeners_def)
  then show ?thesis by simp
qed

lemma step_absent:
  assumes "promise_of w p \<noteq> None" and "local_listeners w p = []"
  shows "promise_of (step a w) p = promise_of w p \<and> local_listeners (step a w) p = []"
proof (cases a)
  case (Send messageId type payload schema)
  then show ?thesis
    using assms
    by (auto simp: sendMcpMessage_def Let_def reject_def settle_def promise_of_def
        postMessage_def addEventListener_def nth_append local_listeners_def
        split: if_splits)
next
  case (Wait schema)
  then show ?thesis
    using assms
    by (auto simp: waitForRenderData_def Let_def reject_def settle_def promise_of_def
        postMessage_def addEventListener_def nth_append local_listeners_def
        split: if_splits)
next
  case (Init root)
  then show ?thesis
    using assms init_fields [of root w] by (simp add: promise_of_def local_listeners_def)
next
  case (InitDocument height width)
  then show ?thesis
    using assms init_document_fields [of height width w]
    by (simp add: promise_of_def local_listeners_def)
next
  case (Deliver d)
  have "\<forall>x \<in> set (listeners w). lid x \<noteq> p"
    using assms(2) by (simp add: local_listeners_empty)
  then show ?thesis
    using dispatch_to_other [of "listeners w" p d w] assms(2) Deliver
    by (simp add: dispatch_def)
qed

lemma run_absent:
  "promise_of w p \<noteq> None \<Longrightarrow> local_listeners w p = [] \<Longrightarrow>
     promise_of (run later w) p = promise_of w p \<and> local_listeners (run later w) p = []"
proof (induction later arbitrary: w)
  case Nil
  then show ?case by (simp add: run_def)
next
  case (Cons a as)
  have s: "promise_of (step a w) p = promise_of w p" "local_listeners (step a w) p = []"
    using step_absent [OF Cons.prems, of a] by simp_all
  then have "promise_of (step a w) p \<noteq> None" using Cons.prems by simp
  from Cons.IH [OF this s(2)] s show ?case by (simp add: run_def)
qed

lemma nullish_read_prop: "nullish d \<Longrightarrow> read_prop d k = JUndefined"
  by (auto simp: nullish_def)

lemma sender_ignores:
  "\<not> sender_matches messageId d \<Longrightarrow> snd (sender_handleMessage p messageId schema d w) = w"
  by (auto simp: sender_matches_def sender_handleMessage_def)

lemma waiter_ignores:
  "\<not> waiter_matches d \<Longrightarrow> waiter_handleMessage p schema d w = (None, w)"
  by (auto simp: waiter_matches_def waiter_handleMessage_def nullish_read_prop)

lemma sender_matches_not_nullish: "sender_matches messageId d \<Longrightarrow> \<not> nullish d"
  by (auto simp: sender_matches_def nullish_def)

lemma waiter_matches_not_nullish: "waiter_matches d \<Longrightarrow> \<not> nullish d"
  by (auto simp: waiter_matches_def nullish_def)

text \<open>The listener is removed on every path that follows a match.\<close>

lemma sender_match_removes:
  "sender_matches messageId d \<Longrightarrow>
     listeners (snd (sender_handleMessage p messageId schema d w))
       = filter (\<lambda>l. lid l \<noteq> p) (listeners w)"
  by (frule sender_matches_not_nullish)
    (simp add: sender_matches_def sender_handleMessage_def Let_def resolve_def reject_def
      settle_fields remove_fields split: option.splits parse_result.splits)

lemma waiter_match_removes:
  "waiter_matches d \<Longrightarrow>
     listeners (snd (waiter_handleMessage p schema d w))
       = filter (\<lambda>l. lid l \<noteq> p) (listeners w)"
  by (frule waiter_matches_not_nullish)
    (simp add: waiter_matches_def waiter_handleMessage_def Let_def resolve_def reject_def
      settle_fields remove_fields split: option.splits parse_result.splits)

text \<open>What a matching reply does to a pending promise.\<close>

lemma sender_match_settles:
  assumes "sender_matches messageId d" and "promise_of w p = Some Pending"
    and "\<not> nullish (read_prop d ''payload'')"
  shows "promise_of (snd (sender_handleMessage p messageId schema d w)) p =
     Some (if truthy (read_prop (read_prop d ''payload'') ''error'')
           then Rejected (read_prop (read_prop d ''payload'') ''error'')
           else (case schema of
                   None \<Rightarrow> Resolved (read_prop (read_prop d ''payload'') ''response'')
                 | Some safeParse \<Rightarrow>
                     (case safeParse (read_prop (read_prop d ''payload'') ''response'') of
                        ParseFailure e \<Rightarrow> Rejected e
                      | ParseSuccess v \<Rightarrow> Resolved v)))"
  using assms sender_matches_not_nullish [OF assms(1)]
  by (simp add: sender_matches_def sender_handleMessage_def Let_def resolve_def reject_def
      promise_of_settle_same promise_of_remove split: option.splits parse_result.splits)

lemma waiter_match_settles:
  assumes "waiter_matches d" and "promise_of w p = Some Pending"
    and "\<not> nullish (read_prop d ''payload'')"
  shows "promise_of (snd (waiter_handleMessage p schema d w)) p =
     Some (if truthy (read_prop (read_prop d ''payload'') ''error'')
           then Rejected (read_prop (read_prop d ''payload'') ''error'')
           else (case schema of
                   None \<Rightarrow> Resolved (read_prop (read_prop d ''payload'') ''renderData'')
                 | Some safeParse \<Rightarrow>
                     (case safeParse (read_prop (read_prop d ''payload'') ''renderData'') of
                        ParseFailure e \<Rightarrow> Rejected e
                      | ParseSuccess v \<Rightarrow> Resolved v)))"
  using assms waiter_matches_not_nullish [OF assms(1)]
  by (simp add: waiter_matches_def waiter_handleMessage_def Let_def resolve_def reject_def
      promise_of_settle_same promise_of_remove split: option.splits parse_result.splits)

text \<open>A matching reply, dispatched in a consistent world, and everything after it.\<close>

lemma sender_reply_final:
  assumes "consistent w" and "SenderListener p messageId schema \<in> set (listeners w)"
    and "sender_matches messageId d"
  shows "promise_of (run later (dispatch d w)) p
           = promise_of (snd (sender_handleMessage p messageId schema d w)) p"
    and "local_listeners (run later (dispatch d w)) p = []"
proof -
  let ?l = "SenderListener p messageId schema"
  have own: "promise_of (dispatch d w) p = promise_of (snd (run_listener ?l d w)) p"
    "local_listeners (dispatch d w) p = local_listeners (snd (run_listener ?l d w)) p"
    using dispatch_own [OF assms(1,2), of d] by simp_all
  have gone: "local_listeners (dispatch d w) p = []"
    using own(2) sender_match_removes [OF assms(3), of p schema w]
    by (simp add: local_listeners_def)
  have "promise_of w p = Some Pending"
    using consistent_installed(1) [OF assms(1,2)] by simp
  then have "promise_of (snd (sender_handleMessage p messageId schema d w)) p \<noteq> None"
    using run_listener_length [of ?l d w]
    by (simp add: promise_of_def split: if_splits)
  then have some: "promise_of (dispatch d w) p \<noteq> None" using own(1) by simp
  show "promise_of (run later (dispatch d w)) p
           = promise_of (snd (sender_handleMessage p messageId schema d w)) p"
    and "local_listeners (run later (dispatch d w)) p = []"
    using run_absent [OF some gone, of later] own(1) by simp_all
qed

lemma listener_reply_final:
  assumes "consistent w" and "l \<in> set (listeners w)"
    and "listeners (snd (run_listener l d w)) = filter (\<lambda>x. lid x \<noteq> lid l) (listeners w)"
  shows "promise_of (run later (dispatch d w)) (lid l)
           = promise_of (snd (run_listener l d w)) (lid l)"
    and "local_listeners (run later (dispatch d w)) (lid l) = []"
proof -
  have own: "promise_of (dispatch d w) (lid l) = promise_of (snd (run_listener l d w)) (lid l)"
    "local_listeners (dispatch d w) (lid l) = local_listeners (snd (run_listener l d w)) (lid l)"
    using dispatch_own [OF assms(1,2), of d] by simp_all
  have gone: "local_listeners (dispatch d w) (lid l) = []"
    using own(2) assms(3) by (simp add: local_listeners_def)
  have "promise_of w (lid l) = Some Pending"
    using consistent_installed(1) [OF assms(1,2)] by simp
  then have "promise_of (snd (run_listener l d w)) (lid l) \<noteq> None"
    using run_listener_length [of l d w]
    by (simp add: promise_of_def split: if_splits)
  then have some: "promise_of (dispatch d w) (lid l) \<noteq> None" using own(1) by simp
  show "promise_of (run later (dispatch d w)) (lid l)
           = promise_of (snd (run_listener l d w)) (lid l)"
    and "local_listeners (run later (dispatch d w)) (lid l) = []"
    using run_absent [OF some gone, of later] own(1) by simp_all
qed

lemma waiter_reply_final:
  assumes "consistent w" and "WaiterListener p schema \<in> set (listeners w)"
    and "waiter_matches d"
  shows "promise_of (run later (dispatch d w)) p
           = promise_of (snd (waiter_handleMessage p schema d w)) p"
    and "local_listeners (run later (dispatch d w)) p = []"
  using listener_reply_final [OF assms(1,2), of d later]
    waiter_match_removes [OF assms(3), of p schema w]
  by simp_all

lemma listener_idle:
  assumes "consistent w" and "l \<in> set (listeners w)"
    and "snd (run_listener l d w) = w"
  shows "promise_of (dispatch d w) (lid l) = Some Pending"
    and "l \<in> set (listeners (dispatch d w))"
proof -
  have inst: "promise_of w (lid l) = Some Pending" "local_listeners w (lid l) = [l]"
    using consistent_installed [OF assms(1,2)] by simp_all
  show "promise_of (dispatch d w) (lid l) = Some Pending"
    using dispatch_own(1) [OF assms(1,2), of d] assms(3) inst by simp
  have "local_listeners (dispatch d w) (lid l) = [l]"
    using dispatch_own(2) [OF assms(1,2), of d] assms(3) inst by simp
  then show "l \<in> set (listeners (dispatch d w))" by (rule local_listeners_mem)
qed




section \<open>Sender: correlation\<close>

text \<open>
  Correlation. Take any world reached from the start by calls, mounts and delivered
  events, and a \<^verbatim>\<open>sendMcpMessage\<close> call whose listener is installed in it. An event
  whose \<^verbatim>\<open>data.type\<close> is not \<^verbatim>\<open>'ui-message-response'\<close> or whose \<^verbatim>\<open>data.messageId\<close> is not the
  call's id leaves the call's promise pending and its listener installed, at the handler
  and after the event has gone to every listener. A reply tagged with another call's id is
  such an event, so it can settle that other call only, in whatever order replies arrive.
  The handler returns without an exception unless \<^verbatim>\<open>event.data\<close> is \<^verbatim>\<open>null\<close> or
  \<^verbatim>\<open>undefined\<close>.
\<close>

theorem sender_correlation_soundness:
  assumes "w = run acts (initial_world par)"
    and "SenderListener p messageId schema \<in> set (listeners w)"
    and "\<not> sender_matches messageId d"
  shows "snd (sender_handleMessage p messageId schema d w) = w \<and>
         (\<not> nullish d \<longrightarrow> fst (sender_handleMessage p messageId schema d w) = None) \<and>
         promise_of w p = Some Pending \<and>
         promise_of (dispatch d w) p = Some Pending \<and>
         SenderListener p messageId schema \<in> set (listeners (dispatch d w))"
proof -
  let ?l = "SenderListener p messageId schema"
  have c: "consistent w" using assms(1) consistent_run by simp
  have idle: "snd (run_listener ?l d w) = w"
    using sender_ignores [OF assms(3)] by simp
  have inst: "promise_of w p = Some Pending" "local_listeners w p = [?l]"
    using consistent_installed [OF c assms(2)] by simp_all
  have "promise_of (dispatch d w) p = promise_of w p"
    and "local_listeners (dispatch d w) (lid ?l) = [?l]"
    using dispatch_own [OF c assms(2), of d] idle inst by simp_all
  moreover have "\<not> nullish d \<longrightarrow> fst (sender_handleMessage p messageId schema d w) = None"
    using assms(3) by (auto simp: sender_matches_def sender_handleMessage_def)
  ultimately show ?thesis
    using idle inst local_listeners_mem [of "dispatch d w" ?l] by simp
qed


text \<open>
  Two calls \<open>A\<close> and \<open>B\<close> are pending; the reply to \<open>B\<close> arrives first and the reply to
  \<open>A\<close> second. Each call resolves with its own payload.
\<close>

theorem sender_correlation_soundness_witness:
  "(let w = run [Send ''A'' Tool (JObj []) None, Send ''B'' Tool (JObj []) None]
              (initial_world HostParent);
        reply_B = JObj [(''type'', JStr ''ui-message-response''), (''messageId'', JStr ''B''),
                        (''payload'', JObj [(''response'', JNum 7)])];
        reply_A = JObj [(''type'', JStr ''ui-message-response''), (''messageId'', JStr ''A''),
                        (''payload'', JObj [(''response'', JNum 5)])]
    in SenderListener 0 ''A'' None \<in> set (listeners w) \<and>
       \<not> sender_matches ''A'' reply_B \<and>
       promise_of (dispatch reply_B w) 0 = Some Pending \<and>
       promise_of (dispatch reply_B w) 1 = Some (Resolved (JNum 7)) \<and>
       SenderListener 0 ''A'' None \<in> set (listeners (dispatch reply_B w)) \<and>
       promise_of (dispatch reply_A (dispatch reply_B w)) 0 = Some (Resolved (JNum 5)) \<and>
       promise_of (dispatch reply_A (dispatch reply_B w)) 1 = Some (Resolved (JNum 7)))"
  using sender_correlation_soundness
    [of "run [Send ''A'' Tool (JObj []) None, Send ''B'' Tool (JObj []) None]
           (initial_world HostParent)"
        "[Send ''A'' Tool (JObj []) None, Send ''B'' Tool (JObj []) None]" HostParent
        0 "''A''" None
        "JObj [(''type'', JStr ''ui-message-response''), (''messageId'', JStr ''B''),
               (''payload'', JObj [(''response'', JNum 7)])]"]
  by (simp add: Let_def run_def initial_world_def sendMcpMessage_def postMessage_def
      addEventListener_def removeEventListener_def dispatch_def sender_handleMessage_def
      sender_matches_def nullish_def resolve_def reject_def settle_def promise_of_def
      envelope_def)


text \<open>
  C1 (correlation soundness), at the event it fails on. A \<^verbatim>\<open>message\<close> event whose data is
  \<^verbatim>\<open>null\<close> or \<^verbatim>\<open>undefined\<close> has no type \<^verbatim>\<open>'ui-message-response'\<close>, yet the sender's
  handler does not pass it over in silence: \<^verbatim>\<open>event.data.type\<close> throws a \<^verbatim>\<open>TypeError\<close>,
  which the event loop reports. The waiter's handler reads \<^verbatim>\<open>event.data?.type\<close> and
  returns on the same event. Promise and listener of the call are as before.
\<close>

theorem sender_handleMessage_null_data:
  "(let w = run [Send ''A'' Tool (JObj []) None, Wait None] (initial_world HostParent)
    in listeners w = [SenderListener 0 ''A'' None, WaiterListener 1 None] \<and>
       read_prop JNull ''type'' = JUndefined \<and>
       sender_handleMessage 0 ''A'' None JNull w = (Some (JError ''TypeError'' []), w) \<and>
       sender_handleMessage 0 ''A'' None JUndefined w = (Some (JError ''TypeError'' []), w) \<and>
       waiter_handleMessage 1 None JNull w = (None, w) \<and>
       reported w = [] \<and>
       reported (dispatch JNull w) = [JError ''TypeError'' []] \<and>
       promise_of (dispatch JNull w) 0 = Some Pending \<and>
       listeners (dispatch JNull w) = listeners w)"
  by (simp add: Let_def run_def initial_world_def sendMcpMessage_def waitForRenderData_def
      postMessage_def addEventListener_def dispatch_def sender_handleMessage_def
      waiter_handleMessage_def nullish_def type_error_def promise_of_def envelope_def
      ready_signal_def)


section \<open>Sender: settlement\<close>

text \<open>
  C2 (at-most-once settlement). When an event matches an installed call (type
  \<^verbatim>\<open>'ui-message-response'\<close> and the call's \<^verbatim>\<open>messageId\<close>), the promise was pending, the
  handler removes the call's listener on every path, also the one where reading the payload
  throws, and from then on nothing changes the promise: after any further calls, mounts
  and events, among them events with the same \<^verbatim>\<open>messageId\<close>, the call has no listener and
  its promise is what the first matching reply made it.
\<close>

theorem sender_at_most_once:
  assumes "w = run acts (initial_world par)"
    and "SenderListener p messageId schema \<in> set (listeners w)"
    and "sender_matches messageId d"
  shows "promise_of w p = Some Pending \<and>
         listeners (snd (sender_handleMessage p messageId schema d w))
           = filter (\<lambda>l. lid l \<noteq> p) (listeners w) \<and>
         (\<forall>later.
            (\<forall>l \<in> set (listeners (run later (dispatch d w))). lid l \<noteq> p) \<and>
            promise_of (run later (dispatch d w)) p = promise_of (dispatch d w) p)"
proof -
  have c: "consistent w" using assms(1) consistent_run by simp
  have "promise_of (run later (dispatch d w)) p = promise_of (dispatch d w) p" for later
    using sender_reply_final(1) [OF c assms(2,3), of later]
      sender_reply_final(1) [OF c assms(2,3), of "[]"]
    by (simp add: run_def)
  moreover have "\<forall>l \<in> set (listeners (run later (dispatch d w))). lid l \<noteq> p" for later
    using sender_reply_final(2) [OF c assms(2,3), of later]
    by (simp add: local_listeners_empty)
  ultimately show ?thesis
    using consistent_installed(1) [OF c assms(2)] sender_match_removes [OF assms(3)]
    by simp
qed

theorem sender_at_most_once_witness:
  "(let w = run [Send ''A'' Tool (JObj []) None] (initial_world HostParent);
        first_reply = JObj [(''type'', JStr ''ui-message-response''), (''messageId'', JStr ''A''),
                        (''payload'', JObj [(''response'', JNum 7)])];
        second_reply = JObj [(''type'', JStr ''ui-message-response''), (''messageId'', JStr ''A''),
                        (''payload'', JObj [(''error'', JStr ''late'')])]
    in SenderListener 0 ''A'' None \<in> set (listeners w) \<and>
       sender_matches ''A'' first_reply \<and>
       promise_of w 0 = Some Pending \<and>
       listeners (dispatch first_reply w) = [] \<and>
       promise_of (dispatch first_reply w) 0 = Some (Resolved (JNum 7)) \<and>
       run [Deliver second_reply] (dispatch first_reply w) = dispatch first_reply w)"
  using sender_at_most_once
    [of "run [Send ''A'' Tool (JObj []) None] (initial_world HostParent)"
        "[Send ''A'' Tool (JObj []) None]" HostParent 0 "''A''" None
        "JObj [(''type'', JStr ''ui-message-response''), (''messageId'', JStr ''A''),
               (''payload'', JObj [(''response'', JNum 7)])]"]
  by (simp add: Let_def run_def initial_world_def sendMcpMessage_def postMessage_def
      addEventListener_def removeEventListener_def dispatch_def sender_handleMessage_def
      sender_matches_def nullish_def resolve_def reject_def settle_def promise_of_def
      envelope_def)


section \<open>Sender: interpreting the payload\<close>

text \<open>
  The handler tests \<^verbatim>\<open>if (error)\<close>. A reply whose payload has \<^verbatim>\<open>error: 0\<close> beside
  \<^verbatim>\<open>response: 5\<close> has the error field present, and the call resolves with \<open>5\<close>.
\<close>

theorem sender_error_present_counterexample:
  "(let w = run [Send ''A'' Tool (JObj []) None] (initial_world HostParent);
        reply = JObj [(''type'', JStr ''ui-message-response''), (''messageId'', JStr ''A''),
                      (''payload'', JObj [(''error'', JNum 0), (''response'', JNum 5)])]
    in SenderListener 0 ''A'' None \<in> set (listeners w) \<and>
       sender_matches ''A'' reply \<and>
       map_of [(''error'', JNum 0), (''response'', JNum 5)] ''error'' = Some (JNum 0) \<and>
       promise_of (dispatch reply w) 0 = Some (Resolved (JNum 5)) \<and>
       promise_of (dispatch reply w) 0 \<noteq> Some (Rejected (JNum 0)))"
  by (simp add: Let_def run_def initial_world_def sendMcpMessage_def postMessage_def
      addEventListener_def removeEventListener_def dispatch_def sender_handleMessage_def
      sender_matches_def nullish_def resolve_def reject_def settle_def promise_of_def
      envelope_def)


text \<open>
  C3 (error precedence), for a truthy error. When the payload of a matching reply has a
  truthy \<^verbatim>\<open>error\<close>, the call rejects with that very value, whatever \<^verbatim>\<open>response\<close> holds and
  whether or not a schema was given, and the promise stays so.
\<close>

theorem sender_error_precedence:
  assumes "w = run acts (initial_world par)"
    and "SenderListener p messageId schema \<in> set (listeners w)"
    and "sender_matches messageId d"
    and "truthy (read_prop (read_prop d ''payload'') ''error'')"
  shows "promise_of (run later (dispatch d w)) p
           = Some (Rejected (read_prop (read_prop d ''payload'') ''error''))"
proof -
  have c: "consistent w" using assms(1) consistent_run by simp
  have "\<not> nullish (read_prop d ''payload'')"
    using assms(4) by (auto simp: nullish_def)
  then show ?thesis
    using sender_reply_final(1) [OF c assms(2,3), of later]
      sender_match_settles [OF assms(3) consistent_installed(1) [OF c assms(2), simplified]]
      assms(4)
    by simp
qed

theorem sender_error_precedence_witness:
  "(let w = run [Send ''A'' Tool (JObj []) (Some ParseSuccess)] (initial_world HostParent);
        reply = JObj [(''type'', JStr ''ui-message-response''), (''messageId'', JStr ''A''),
                      (''payload'', JObj [(''response'', JNum 5), (''error'', JStr ''not found'')])]
    in SenderListener 0 ''A'' (Some ParseSuccess) \<in> set (listeners w) \<and>
       sender_matches ''A'' reply \<and>
       truthy (read_prop (read_prop reply ''payload'') ''error'') \<and>
       promise_of (run [Deliver reply] (dispatch reply w)) 0
         = Some (Rejected (JStr ''not found'')))"
  using sender_error_precedence
    [of "run [Send ''A'' Tool (JObj []) (Some ParseSuccess)] (initial_world HostParent)"
        "[Send ''A'' Tool (JObj []) (Some ParseSuccess)]" HostParent 0 "''A''"
        "Some ParseSuccess"
        "JObj [(''type'', JStr ''ui-message-response''), (''messageId'', JStr ''A''),
               (''payload'', JObj [(''response'', JNum 5), (''error'', JStr ''not found'')])]"
        "[Deliver (JObj [(''type'', JStr ''ui-message-response''), (''messageId'', JStr ''A''),
               (''payload'', JObj [(''response'', JNum 5), (''error'', JStr ''not found'')])])]"]
  by (simp add: Let_def run_def initial_world_def sendMcpMessage_def postMessage_def
      addEventListener_def envelope_def sender_matches_def)


text \<open>
  A matching reply that has no \<^verbatim>\<open>payload\<close> carries no error. The handler removes the
  listener and then throws on destructuring: the validator, which would have accepted the
  missing response, is never run, and the promise stays pending with no listener left.
\<close>

theorem sender_schema_gate_missing_payload_counterexample:
  "(let w = run [Send ''A'' Tool (JObj []) (Some number_schema)] (initial_world HostParent);
        reply = JObj [(''type'', JStr ''ui-message-response''), (''messageId'', JStr ''A'')]
    in SenderListener 0 ''A'' (Some number_schema) \<in> set (listeners w) \<and>
       sender_matches ''A'' reply \<and>
       read_prop reply ''payload'' = JUndefined \<and>
       read_prop (read_prop reply ''payload'') ''error'' = JUndefined \<and>
       number_schema (read_prop (read_prop reply ''payload'') ''response'') = ParseSuccess (JNum 0) \<and>
       promise_of (dispatch reply w) 0 = Some Pending \<and>
       listeners (dispatch reply w) = [] \<and>
       reported (dispatch reply w) = [JError ''TypeError'' []] \<and>
       promise_of (run [Deliver reply] (dispatch reply w)) 0 = Some Pending)"
  by (simp add: Let_def run_def initial_world_def sendMcpMessage_def postMessage_def
      addEventListener_def removeEventListener_def dispatch_def sender_handleMessage_def
      sender_matches_def nullish_def type_error_def promise_of_def envelope_def
      number_schema_def)


text \<open>
  C4 (schema gate), for a payload that can be read. For a call made with a schema, a
  matching reply whose payload is neither \<^verbatim>\<open>null\<close> nor \<^verbatim>\<open>undefined\<close> and whose \<^verbatim>\<open>error\<close>
  is absent or falsy has \<^verbatim>\<open>safeParse\<close> run on \<^verbatim>\<open>payload.response\<close>: on failure the promise
  is rejected with the validator's error, on success it is resolved with the validator's
  data, and it stays so whatever happens later.
\<close>

theorem sender_schema_gate:
  assumes "w = run acts (initial_world par)"
    and "SenderListener p messageId (Some safeParse) \<in> set (listeners w)"
    and "sender_matches messageId d"
    and "\<not> nullish (read_prop d ''payload'')"
    and "\<not> truthy (read_prop (read_prop d ''payload'') ''error'')"
  shows "promise_of (run later (dispatch d w)) p =
           Some (case safeParse (read_prop (read_prop d ''payload'') ''response'') of
                   ParseFailure e \<Rightarrow> Rejected e
                 | ParseSuccess v \<Rightarrow> Resolved v)"
proof -
  have c: "consistent w" using assms(1) consistent_run by simp
  show ?thesis
    using sender_reply_final(1) [OF c assms(2,3), of later]
      sender_match_settles [OF assms(3) consistent_installed(1) [OF c assms(2), simplified]
        assms(4)]
      assms(5)
    by simp
qed

theorem sender_schema_gate_witness:
  "(let w = run [Send ''A'' Tool (JObj []) (Some number_schema),
                 Send ''B'' Tool (JObj []) (Some number_schema)] (initial_world HostParent);
        bad = JObj [(''type'', JStr ''ui-message-response''), (''messageId'', JStr ''A''),
                    (''payload'', JObj [(''response'', JStr ''five'')])];
        good = JObj [(''type'', JStr ''ui-message-response''), (''messageId'', JStr ''B''),
                     (''payload'', JObj [])]
    in SenderListener 0 ''A'' (Some number_schema) \<in> set (listeners w) \<and>
       SenderListener 1 ''B'' (Some number_schema) \<in> set (listeners w) \<and>
       sender_matches ''A'' bad \<and> sender_matches ''B'' good \<and>
       \<not> nullish (read_prop bad ''payload'') \<and> \<not> nullish (read_prop good ''payload'') \<and>
       \<not> truthy (read_prop (read_prop bad ''payload'') ''error'') \<and>
       \<not> truthy (read_prop (read_prop good ''payload'') ''error'') \<and>
       promise_of (run [Deliver bad] (dispatch bad w)) 0
         = Some (Rejected (JError ''ZodError'' ''Expected number'')) \<and>
       promise_of (run [] (dispatch good w)) 1 = Some (Resolved (JNum 0)))"
  using sender_schema_gate
    [of "run [Send ''A'' Tool (JObj []) (Some number_schema),
              Send ''B'' Tool (JObj []) (Some number_schema)] (initial_world HostParent)"
        "[Send ''A'' Tool (JObj []) (Some number_schema),
          Send ''B'' Tool (JObj []) (Some number_schema)]" HostParent 0 "''A''" number_schema
        "JObj [(''type'', JStr ''ui-message-response''), (''messageId'', JStr ''A''),
               (''payload'', JObj [(''response'', JStr ''five'')])]"
        "[Deliver (JObj [(''type'', JStr ''ui-message-response''), (''messageId'', JStr ''A''),
               (''payload'', JObj [(''response'', JStr ''five'')])])]"]
    sender_schema_gate
    [of "run [Send ''A'' Tool (JObj []) (Some number_schema),
              Send ''B'' Tool (JObj []) (Some number_schema)] (initial_world HostParent)"
        "[Send ''A'' Tool (JObj []) (Some number_schema),
          Send ''B'' Tool (JObj []) (Some number_schema)]" HostParent 1 "''B''" number_schema
        "JObj [(''type'', JStr ''ui-message-response''), (''messageId'', JStr ''B''),
               (''payload'', JObj [])]" "[]"]
  by (simp add: Let_def run_def initial_world_def sendMcpMessage_def postMessage_def
      addEventListener_def envelope_def sender_matches_def nullish_def number_schema_def)


text \<open>
  A matching reply with \<^verbatim>\<open>payload: null\<close> carries no error either. Without a schema the
  outcome is the same: the listener is removed, destructuring throws, and the promise is
  never resolved.
\<close>

theorem sender_passthrough_null_payload_counterexample:
  "(let w = run [Send ''A'' Link (JObj [(''url'', JStr ''https://example.com'')]) None]
              (initial_world HostParent);
        reply = JObj [(''type'', JStr ''ui-message-response''), (''messageId'', JStr ''A''),
                      (''payload'', JNull)]
    in SenderListener 0 ''A'' None \<in> set (listeners w) \<and>
       sender_matches ''A'' reply \<and>
       read_prop reply ''payload'' = JNull \<and>
       read_prop (read_prop reply ''payload'') ''error'' = JUndefined \<and>
       promise_of (dispatch reply w) 0 = Some Pending \<and>
       listeners (dispatch reply w) = [] \<and>
       reported (dispatch reply w) = [JError ''TypeError'' []] \<and>
       promise_of (run [Deliver reply] (dispatch reply w)) 0 = Some Pending)"
  by (simp add: Let_def run_def initial_world_def sendMcpMessage_def postMessage_def
      addEventListener_def removeEventListener_def dispatch_def sender_handleMessage_def
      sender_matches_def nullish_def type_error_def promise_of_def envelope_def)


text \<open>
  C5 (no-schema passthrough), for a payload that can be read. For a call made without a
  schema, a matching reply whose payload is neither \<^verbatim>\<open>null\<close> nor \<^verbatim>\<open>undefined\<close> and
  whose \<^verbatim>\<open>error\<close> is absent or falsy resolves the promise with \<^verbatim>\<open>payload.response\<close> as it
  is, whatever value that is, and the promise stays so.
\<close>

theorem sender_no_schema_passthrough:
  assumes "w = run acts (initial_world par)"
    and "SenderListener p messageId None \<in> set (listeners w)"
    and "sender_matches messageId d"
    and "\<not> nullish (read_prop d ''payload'')"
    and "\<not> truthy (read_prop (read_prop d ''payload'') ''error'')"
  shows "promise_of (run later (dispatch d w)) p =
           Some (Resolved (read_prop (read_prop d ''payload'') ''response''))"
proof -
  have c: "consistent w" using assms(1) consistent_run by simp
  show ?thesis
    using sender_reply_final(1) [OF c assms(2,3), of later]
      sender_match_settles [OF assms(3) consistent_installed(1) [OF c assms(2), simplified]
        assms(4)]
      assms(5)
    by simp
qed

theorem sender_no_schema_passthrough_witness:
  "(let w = run [Send ''A'' Link (JObj [(''url'', JStr ''https://example.com'')]) None]
              (initial_world HostParent);
        reply = JObj [(''type'', JStr ''ui-message-response''), (''messageId'', JStr ''A''),
                      (''payload'',
                       JObj [(''response'', JArr [JNull, JObj [(''ok'', JArr [JBool True])]])])]
    in SenderListener 0 ''A'' None \<in> set (listeners w) \<and>
       sender_matches ''A'' reply \<and>
       \<not> nullish (read_prop reply ''payload'') \<and>
       \<not> truthy (read_prop (read_prop reply ''payload'') ''error'') \<and>
       promise_of (run [] (dispatch reply w)) 0
         = Some (Resolved (JArr [JNull, JObj [(''ok'', JArr [JBool True])]])))"
  using sender_no_schema_passthrough
    [of "run [Send ''A'' Link (JObj [(''url'', JStr ''https://example.com'')]) None]
           (initial_world HostParent)"
        "[Send ''A'' Link (JObj [(''url'', JStr ''https://example.com'')]) None]" HostParent
        0 "''A''"
        "JObj [(''type'', JStr ''ui-message-response''), (''messageId'', JStr ''A''),
               (''payload'',
                JObj [(''response'', JArr [JNull, JObj [(''ok'', JArr [JBool True])]])])]"
        "[]"]
  by (simp add: Let_def run_def initial_world_def sendMcpMessage_def postMessage_def
      addEventListener_def envelope_def sender_matches_def nullish_def)


text \<open>
  C9 (a falsy error counts as none). When the payload of a matching event is an object
  whose \<^verbatim>\<open>error\<close> field is present and falsy, neither handler rejects with it:
  \<^verbatim>\<open>sendMcpMessage\<close> goes on to resolve with \<^verbatim>\<open>response\<close>, or to validate it when there is
  a schema, and \<^verbatim>\<open>waitForRenderData\<close> does the same with \<^verbatim>\<open>renderData\<close>.
\<close>

theorem falsy_error_treated_as_absent:
  assumes "w = run acts (initial_world par)"
    and "read_prop d ''payload'' = JObj kvs"
    and "map_of kvs ''error'' = Some e"
    and "\<not> truthy e"
  shows "(SenderListener p messageId schema \<in> set (listeners w) \<and> sender_matches messageId d \<longrightarrow>
            promise_of (dispatch d w) p =
              Some (case schema of
                      None \<Rightarrow> Resolved (read_prop (read_prop d ''payload'') ''response'')
                    | Some safeParse \<Rightarrow>
                        (case safeParse (read_prop (read_prop d ''payload'') ''response'') of
                           ParseFailure x \<Rightarrow> Rejected x
                         | ParseSuccess v \<Rightarrow> Resolved v))) \<and>
         (WaiterListener q schema' \<in> set (listeners w) \<and> waiter_matches d \<longrightarrow>
            promise_of (dispatch d w) q =
              Some (case schema' of
                      None \<Rightarrow> Resolved (read_prop (read_prop d ''payload'') ''renderData'')
                    | Some safeParse \<Rightarrow>
                        (case safeParse (read_prop (read_prop d ''payload'') ''renderData'') of
                           ParseFailure x \<Rightarrow> Rejected x
                         | ParseSuccess v \<Rightarrow> Resolved v)))"
proof -
  have c: "consistent w" using assms(1) consistent_run by simp
  have pl: "\<not> nullish (read_prop d ''payload'')" using assms(2) by (simp add: nullish_def)
  have err: "\<not> truthy (read_prop (read_prop d ''payload'') ''error'')"
    using assms(2,3,4) by simp
  have "promise_of (dispatch d w) p =
          Some (case schema of
                  None \<Rightarrow> Resolved (read_prop (read_prop d ''payload'') ''response'')
                | Some safeParse \<Rightarrow>
                    (case safeParse (read_prop (read_prop d ''payload'') ''response'') of
                       ParseFailure x \<Rightarrow> Rejected x
                     | ParseSuccess v \<Rightarrow> Resolved v))"
    if l: "SenderListener p messageId schema \<in> set (listeners w)"
      and m: "sender_matches messageId d"
    using sender_reply_final(1) [OF c l m, of "[]"]
      sender_match_settles [OF m consistent_installed(1) [OF c l, simplified] pl] err
    by (simp add: run_def)
  moreover have "promise_of (dispatch d w) q =
          Some (case schema' of
                  None \<Rightarrow> Resolved (read_prop (read_prop d ''payload'') ''renderData'')
                | Some safeParse \<Rightarrow>
                    (case safeParse (read_prop (read_prop d ''payload'') ''renderData'') of
                       ParseFailure x \<Rightarrow> Rejected x
                     | ParseSuccess v \<Rightarrow> Resolved v))"
    if l: "WaiterListener q schema' \<in> set (listeners w)" and m: "waiter_matches d"
    using waiter_reply_final(1) [OF c l m, of "[]"]
      waiter_match_settles [OF m consistent_installed(1) [OF c l, simplified] pl] err
    by (simp add: run_def)
  ultimately show ?thesis by blast
qed

theorem falsy_error_treated_as_absent_witness:
  "(let w = run [Send ''A'' Tool (JObj []) None, Wait (Some number_schema)]
              (initial_world HostParent);
        reply = JObj [(''type'', JStr ''ui-message-response''), (''messageId'', JStr ''A''),
                      (''payload'', JObj [(''error'', JNum 0), (''response'', JStr ''done'')])];
        push = JObj [(''type'', JStr ''ui-lifecycle-iframe-render-data''),
                     (''payload'', JObj [(''error'', JNull), (''renderData'', JNum 3)])]
    in read_prop reply ''payload'' = JObj [(''error'', JNum 0), (''response'', JStr ''done'')] \<and>
       map_of [(''error'', JNum 0), (''response'', JStr ''done'')] ''error'' = Some (JNum 0) \<and>
       \<not> truthy (JNum 0) \<and>
       SenderListener 0 ''A'' None \<in> set (listeners w) \<and> sender_matches ''A'' reply \<and>
       promise_of (dispatch reply w) 0 = Some (Resolved (JStr ''done'')) \<and>
       read_prop push ''payload'' = JObj [(''error'', JNull), (''renderData'', JNum 3)] \<and>
       map_of [(''error'', JNull), (''renderData'', JNum 3)] ''error'' = Some JNull \<and>
       \<not> truthy JNull \<and>
       WaiterListener 1 (Some number_schema) \<in> set (listeners w) \<and> waiter_matches push \<and>
       promise_of (dispatch push w) 1 = Some (Resolved (JNum 3)))"
  using falsy_error_treated_as_absent
    [of "run [Send ''A'' Tool (JObj []) None, Wait (Some number_schema)]
           (initial_world HostParent)"
        "[Send ''A'' Tool (JObj []) None, Wait (Some number_schema)]" HostParent
        "JObj [(''type'', JStr ''ui-message-response''), (''messageId'', JStr ''A''),
               (''payload'', JObj [(''error'', JNum 0), (''response'', JStr ''done'')])]"
        "[(''error'', JNum 0), (''response'', JStr ''done'')]" "JNum 0"
        0 "''A''" None 1 "Some number_schema"]
    falsy_error_treated_as_absent
    [of "run [Send ''A'' Tool (JObj []) None, Wait (Some number_schema)]
           (initial_world HostParent)"
        "[Send ''A'' Tool (JObj []) None, Wait (Some number_schema)]" HostParent
        "JObj [(''type'', JStr ''ui-lifecycle-iframe-render-data''),
               (''payload'', JObj [(''error'', JNull), (''renderData'', JNum 3)])]"
        "[(''error'', JNull), (''renderData'', JNum 3)]" JNull
        0 "''A''" None 1 "Some number_schema"]
  by (simp add: Let_def run_def initial_world_def sendMcpMessage_def waitForRenderData_def
      postMessage_def addEventListener_def envelope_def sender_matches_def waiter_matches_def
      ready_signal_def number_schema_def)


section \<open>Sender: no host\<close>

text \<open>
  C6 (no-host immediate failure). When \<^verbatim>\<open>window.parent\<close> is missing or is the window
  itself, \<^verbatim>\<open>sendMcpMessage\<close> returns a promise already rejected with
  \<^verbatim>\<open>Error('No parent frame available')\<close>, posts nothing and installs no listener. When a
  distinct parent exists, it posts exactly one message, the object whose \<^verbatim>\<open>type\<close> is the
  given type (\<^verbatim>\<open>'tool'\<close>, \<^verbatim>\<open>'prompt'\<close> or \<^verbatim>\<open>'link'\<close>), whose \<^verbatim>\<open>messageId\<close> is the minted
  id and whose \<^verbatim>\<open>payload\<close> is the given payload; it installs the call's listener, and the
  promise is pending.
\<close>

theorem sendMcpMessage_no_host:
  "(parent w = NoParent \<or> parent w = SelfParent \<longrightarrow>
      (case sendMcpMessage messageId type payload schema w of
         (p, w') \<Rightarrow>
           promise_of w' p = Some (Rejected (JError ''Error'' ''No parent frame available'')) \<and>
           posted w' = posted w \<and> listeners w' = listeners w)) \<and>
   (parent w = HostParent \<longrightarrow>
      (case sendMcpMessage messageId type payload schema w of
         (p, w') \<Rightarrow>
           promise_of w' p = Some Pending \<and>
           posted w' = posted w @
             [JObj [(''type'', JStr (case type of Tool \<Rightarrow> ''tool'' | Prompt \<Rightarrow> ''prompt''
                                      | Link \<Rightarrow> ''link'')),
                    (''messageId'', JStr messageId),
                    (''payload'', payload)]] \<and>
           listeners w' = listeners w @ [SenderListener p messageId schema]))"
  by (cases type)
    (auto simp: sendMcpMessage_def Let_def reject_def settle_def promise_of_def
      postMessage_def addEventListener_def envelope_def no_parent_error_def)

theorem sendMcpMessage_no_host_witness:
  "parent (initial_world SelfParent) = SelfParent \<and>
   parent (initial_world HostParent) = HostParent \<and>
   promise_of (snd (sendMcpMessage ''id-1'' Link (JObj [(''url'', JStr ''https://example.com'')])
       None (initial_world SelfParent))) 0
     = Some (Rejected (JError ''Error'' ''No parent frame available'')) \<and>
   posted (snd (sendMcpMessage ''id-1'' Link (JObj [(''url'', JStr ''https://example.com'')])
       None (initial_world SelfParent))) = [] \<and>
   listeners (snd (sendMcpMessage ''id-1'' Link (JObj [(''url'', JStr ''https://example.com'')])
       None (initial_world SelfParent))) = [] \<and>
   posted (snd (sendMcpMessage ''id-1'' Link (JObj [(''url'', JStr ''https://example.com'')])
       None (initial_world HostParent)))
     = [JObj [(''type'', JStr ''link''), (''messageId'', JStr ''id-1''),
              (''payload'', JObj [(''url'', JStr ''https://example.com'')])]] \<and>
   listeners (snd (sendMcpMessage ''id-1'' Link (JObj [(''url'', JStr ''https://example.com'')])
       None (initial_world HostParent))) = [SenderListener 0 ''id-1'' None]"
proof -
  have f: "fst (sendMcpMessage m t pl s w) = length (promises w)" for m t pl s w
    by (simp add: sendMcpMessage_def Let_def)
  show ?thesis
    using sendMcpMessage_no_host [of "initial_world SelfParent" "''id-1''" Link
        "JObj [(''url'', JStr ''https://example.com'')]" None]
      sendMcpMessage_no_host [of "initial_world HostParent" "''id-1''" Link
        "JObj [(''url'', JStr ''https://example.com'')]" None]
      f [of "''id-1''" Link "JObj [(''url'', JStr ''https://example.com'')]" None
         "initial_world SelfParent"]
      f [of "''id-1''" Link "JObj [(''url'', JStr ''https://example.com'')]" None
         "initial_world HostParent"]
    by (simp add: case_prod_beta) (simp add: initial_world_def)
qed


section \<open>Render-Data Waiter: behaviour\<close>

text \<open>
  Three runs of the waiter. It tests \<^verbatim>\<open>if (error)\<close> as the sender does: a push whose
  payload has \<^verbatim>\<open>error: false\<close> beside \<^verbatim>\<open>renderData: 3\<close> has the error field present, and
  the promise resolves with the parsed \<open>3\<close>. A push without a payload removes the listener
  and throws on destructuring, so the promise stays pending. And where \<^verbatim>\<open>window.parent\<close>
  is missing, no ready signal is posted and no listener installed.
\<close>

theorem waitForRenderData_present_error_counterexample:
  "(let w = run [Wait (Some number_schema)] (initial_world HostParent);
        push = JObj [(''type'', JStr ''ui-lifecycle-iframe-render-data''),
                     (''payload'', JObj [(''error'', JBool False), (''renderData'', JNum 3)])];
        bare = JObj [(''type'', JStr ''ui-lifecycle-iframe-render-data'')]
    in WaiterListener 0 (Some number_schema) \<in> set (listeners w) \<and>
       waiter_matches push \<and>
       map_of [(''error'', JBool False), (''renderData'', JNum 3)] ''error'' = Some (JBool False) \<and>
       promise_of (dispatch push w) 0 = Some (Resolved (JNum 3)) \<and>
       promise_of (dispatch push w) 0 \<noteq> Some (Rejected (JBool False)) \<and>
       waiter_matches bare \<and>
       read_prop bare ''payload'' = JUndefined \<and>
       promise_of (dispatch bare w) 0 = Some Pending \<and>
       listeners (dispatch bare w) = [] \<and>
       reported (dispatch bare w) = [JError ''TypeError'' []] \<and>
       posted (snd (waitForRenderData (Some number_schema) (initial_world NoParent))) = [] \<and>
       listeners (snd (waitForRenderData (Some number_schema) (initial_world NoParent))) = [])"
  by (simp add: Let_def run_def initial_world_def waitForRenderData_def postMessage_def
      addEventListener_def removeEventListener_def dispatch_def waiter_handleMessage_def
      waiter_matches_def nullish_def resolve_def reject_def settle_def promise_of_def
      ready_signal_def number_schema_def type_error_def)


text \<open>
  C7 (the waiter), with the error tested for truthiness. Where \<^verbatim>\<open>window.parent\<close> is an
  object, \<^verbatim>\<open>waitForRenderData\<close> posts the ready signal, installs its listener and returns
  a pending promise. While the listener is installed, an event whose \<^verbatim>\<open>data.type\<close> is not
  \<^verbatim>\<open>'ui-lifecycle-iframe-render-data'\<close> leaves promise and listener as they are; the first
  event of that type, whatever its \<^verbatim>\<open>messageId\<close>, removes the listener and, when its
  payload is neither \<^verbatim>\<open>null\<close> nor \<^verbatim>\<open>undefined\<close>, settles the promise: rejected with
  \<^verbatim>\<open>payload.error\<close> when that is truthy, otherwise rejected with the validator's error or
  resolved with the validator's data for \<^verbatim>\<open>payload.renderData\<close>.
\<close>

theorem waitForRenderData_behaviour:
  assumes "w = run acts (initial_world par)"
  shows "(parent w \<noteq> NoParent \<longrightarrow>
            waitForRenderData schema w =
              (length (promises w),
               w\<lparr>posted := posted w @ [JObj [(''type'', JStr ''ui-lifecycle-iframe-ready'')]],
                 listeners := listeners w @ [WaiterListener (length (promises w)) schema],
                 promises := promises w @ [Pending]\<rparr>)) \<and>
         (WaiterListener p (Some safeParse) \<in> set (listeners w) \<longrightarrow>
            (\<not> waiter_matches d \<longrightarrow>
               promise_of (dispatch d w) p = Some Pending \<and>
               WaiterListener p (Some safeParse) \<in> set (listeners (dispatch d w))) \<and>
            (waiter_matches d \<longrightarrow> (\<forall>l \<in> set (listeners (dispatch d w)). lid l \<noteq> p)) \<and>
            (waiter_matches d \<and> \<not> nullish (read_prop d ''payload'') \<longrightarrow>
               promise_of (dispatch d w) p =
                 Some (if truthy (read_prop (read_prop d ''payload'') ''error'')
                       then Rejected (read_prop (read_prop d ''payload'') ''error'')
                       else (case safeParse (read_prop (read_prop d ''payload'') ''renderData'') of
                               ParseFailure e \<Rightarrow> Rejected e
                             | ParseSuccess v \<Rightarrow> Resolved v))))"
proof -
  let ?l = "WaiterListener p (Some safeParse)"
  have c: "consistent w" using assms consistent_run by simp
  have call: "parent w \<noteq> NoParent \<longrightarrow>
            waitForRenderData schema w =
              (length (promises w),
               w\<lparr>posted := posted w @ [JObj [(''type'', JStr ''ui-lifecycle-iframe-ready'')]],
                 listeners := listeners w @ [WaiterListener (length (promises w)) schema],
                 promises := promises w @ [Pending]\<rparr>)"
    by (simp add: waitForRenderData_def Let_def postMessage_def addEventListener_def
        ready_signal_def)
  have idle: "promise_of (dispatch d w) p = Some Pending \<and> ?l \<in> set (listeners (dispatch d w))"
    if l: "?l \<in> set (listeners w)" and m: "\<not> waiter_matches d"
  proof -
    have "snd (run_listener ?l d w) = w" using m by (simp add: waiter_ignores)
    then show ?thesis using listener_idle [OF c l, of d] by simp
  qed
  have gone: "\<forall>l \<in> set (listeners (dispatch d w)). lid l \<noteq> p"
    if l: "?l \<in> set (listeners w)" and m: "waiter_matches d"
    using waiter_reply_final(2) [OF c l m, of "[]"]
    by (simp add: run_def local_listeners_empty)
  have hit: "promise_of (dispatch d w) p =
         Some (if truthy (read_prop (read_prop d ''payload'') ''error'')
               then Rejected (read_prop (read_prop d ''payload'') ''error'')
               else (case safeParse (read_prop (read_prop d ''payload'') ''renderData'') of
                       ParseFailure e \<Rightarrow> Rejected e
                     | ParseSuccess v \<Rightarrow> Resolved v))"
    if l: "?l \<in> set (listeners w)" and m: "waiter_matches d"
      and pl: "\<not> nullish (read_prop d ''payload'')"
    using waiter_reply_final(1) [OF c l m, of "[]"]
      waiter_match_settles [OF m consistent_installed(1) [OF c l, simplified] pl]
    by (simp add: run_def)
  show ?thesis using call idle gone hit by blast
qed

theorem waitForRenderData_behaviour_witness:
  "(let w = run [Wait (Some number_schema)] (initial_world HostParent);
        noise = JObj [(''type'', JStr ''ui-message-response''), (''messageId'', JStr ''A''),
                      (''payload'', JObj [(''response'', JNum 1)])];
        push = JObj [(''type'', JStr ''ui-lifecycle-iframe-render-data''),
                     (''messageId'', JStr ''any''),
                     (''payload'', JObj [(''renderData'', JNum 3)])]
    in parent (initial_world HostParent) \<noteq> NoParent \<and>
       posted w = [JObj [(''type'', JStr ''ui-lifecycle-iframe-ready'')]] \<and>
       WaiterListener 0 (Some number_schema) \<in> set (listeners w) \<and>
       \<not> waiter_matches noise \<and>
       promise_of (dispatch noise w) 0 = Some Pending \<and>
       waiter_matches push \<and> \<not> nullish (read_prop push ''payload'') \<and>
       promise_of (dispatch push w) 0 = Some (Resolved (JNum 3)))"
proof -
  let ?init = "initial_world HostParent"
  let ?w = "run [Wait (Some number_schema)] ?init"
  let ?noise = "JObj [(''type'', JStr ''ui-message-response''), (''messageId'', JStr ''A''),
                      (''payload'', JObj [(''response'', JNum 1)])]"
  let ?push = "JObj [(''type'', JStr ''ui-lifecycle-iframe-render-data''),
                     (''messageId'', JStr ''any''),
                     (''payload'', JObj [(''renderData'', JNum 3)])]"
  have par: "parent ?init \<noteq> NoParent" by (simp add: initial_world_def)
  have call: "posted ?w = [JObj [(''type'', JStr ''ui-lifecycle-iframe-ready'')]]"
    and inst: "WaiterListener 0 (Some number_schema) \<in> set (listeners ?w)"
    by (simp_all add: run_def initial_world_def waitForRenderData_def Let_def postMessage_def
        addEventListener_def ready_signal_def)
  have noise: "\<not> waiter_matches ?noise" and push: "waiter_matches ?push"
    and pl: "\<not> nullish (read_prop ?push ''payload'')"
    by (simp_all add: waiter_matches_def nullish_def)
  have "promise_of (dispatch ?noise ?w) 0 = Some Pending"
    using waitForRenderData_behaviour [OF refl, of "[Wait (Some number_schema)]" HostParent
        _ 0 number_schema ?noise] inst noise
    by simp
  moreover have "promise_of (dispatch ?push ?w) 0 = Some (Resolved (JNum 3))"
    using waitForRenderData_behaviour [OF refl, of "[Wait (Some number_schema)]" HostParent
        _ 0 number_schema ?push] inst push pl
    by (simp add: number_schema_def)
  ultimately show ?thesis using par call inst noise push pl by (simp add: Let_def)
qed







section \<open>Lifecycle Initializer: signals\<close>

text \<open>
  Where \<^verbatim>\<open>window.parent\<close> is missing, the first \<^verbatim>\<open>window.parent.postMessage\<close> of the
  effect throws: no ready signal and no size signal is posted, with or without a root
  element.
\<close>

theorem useMcpUiInit_missing_parent_counterexample:
  "useMcpUiInit None (initial_world NoParent)
     = (Some (JError ''TypeError'' []), initial_world NoParent) \<and>
   useMcpUiInit (Some (480, 640)) (initial_world NoParent)
     = (Some (JError ''TypeError'' []), initial_world NoParent) \<and>
   useMcpUiInit_document 480 640 (initial_world NoParent)
     = (Some (JError ''TypeError'' []), initial_world NoParent) \<and>
   posted (snd (useMcpUiInit None (initial_world NoParent))) = []"
  by (simp add: useMcpUiInit_def useMcpUiInit_document_def initial_world_def type_error_def)


text \<open>
  C8 (order and condition of the lifecycle signals), where \<^verbatim>\<open>window.parent\<close> is an
  object. A mount without a root element posts the ready signal and nothing else, and a
  mount with a root element posts the ready signal first and then one size-change signal
  carrying the element's height and width. Neither throws, and nothing else in the world
  changes. The variant that measures \<^verbatim>\<open>document.documentElement\<close> always has its element
  and always posts both, in that order.
\<close>

theorem useMcpUiInit_signals:
  assumes "parent w \<noteq> NoParent"
  shows "useMcpUiInit None w
           = (None, w\<lparr>posted := posted w @
                [JObj [(''type'', JStr ''ui-lifecycle-iframe-ready'')]]\<rparr>) \<and>
         useMcpUiInit (Some (height, width)) w
           = (None, w\<lparr>posted := posted w @
                [JObj [(''type'', JStr ''ui-lifecycle-iframe-ready'')],
                 JObj [(''type'', JStr ''ui-size-change''),
                       (''payload'', JObj [(''height'', JNum (int height)),
                                           (''width'', JNum (int width))])]]\<rparr>) \<and>
         useMcpUiInit_document height width w
           = (None, w\<lparr>posted := posted w @
                [JObj [(''type'', JStr ''ui-lifecycle-iframe-ready'')],
                 JObj [(''type'', JStr ''ui-size-change''),
                       (''payload'', JObj [(''height'', JNum (int height)),
                                           (''width'', JNum (int width))])]]\<rparr>)"
  using assms
  by (simp add: useMcpUiInit_def useMcpUiInit_document_def Let_def postMessage_def
      ready_signal_def size_change_def)

theorem useMcpUiInit_signals_witness:
  "parent (initial_world SelfParent) \<noteq> NoParent \<and>
   posted (snd (useMcpUiInit None (initial_world SelfParent)))
     = [JObj [(''type'', JStr ''ui-lifecycle-iframe-ready'')]] \<and>
   fst (useMcpUiInit None (initial_world SelfParent)) = None \<and>
   posted (snd (useMcpUiInit (Some (480, 640)) (initial_world SelfParent)))
     = [JObj [(''type'', JStr ''ui-lifecycle-iframe-ready'')],
        JObj [(''type'', JStr ''ui-size-change''),
              (''payload'', JObj [(''height'', JNum 480), (''width'', JNum 640)])]] \<and>
   posted (snd (useMcpUiInit_document 480 640 (initial_world SelfParent)))
     = [JObj [(''type'', JStr ''ui-lifecycle-iframe-ready'')],
        JObj [(''type'', JStr ''ui-size-change''),
              (''payload'', JObj [(''height'', JNum 480), (''width'', JNum 640)])]]"
  using useMcpUiInit_signals [of "initial_world SelfParent" 480 640]
  by (simp add: initial_world_def)


end
